theory Spec2Isabelle
  imports Main
begin

section \<open>safelib: scoped imports with a fallback module\<close>

text \<open>
  The development embeds \<^verbatim>\<open>safelib/__init__.py\<close>.  Python objects that the module mutates
  in place (the \<^verbatim>\<open>_Sentinel\<close> instances) live in an explicit store, because the class
  \<^verbatim>\<open>_State\<close> declares \<^verbatim>\<open>main\<close> and \<^verbatim>\<open>fallback\<close> as class attributes: every
  \<^verbatim>\<open>_State\<close> instance that has no instance attribute of that name reads the one shared
  object.  The host's loader (\<^verbatim>\<open>importlib.import_module\<close>, \<^verbatim>\<open>getattr\<close> on a module) is a
  parameter.  The two \<^verbatim>\<open>print\<close> calls of the module are not modelled.
\<close>

subsection \<open>Values, exceptions, the host\<close>

text \<open>What \<^verbatim>\<open>_Sentinel.value\<close> can hold: \<^verbatim>\<open>None\<close>, a module name, or the class \<^verbatim>\<open>_Future\<close>.\<close>

datatype pyval = PNone | PStr string | PFuture

text \<open>Python truthiness of such a value, as tested by \<^verbatim>\<open>if state.main.value:\<close>.\<close>

fun truthy :: "pyval \<Rightarrow> bool" where
  "truthy PNone = False"
| "truthy (PStr s) = (s \<noteq> [])"
| "truthy PFuture = True"

text \<open>
  Exceptions by class, with their message.  \<^verbatim>\<open>ModuleNotFoundError\<close> is a subclass of
  \<^verbatim>\<open>ImportError\<close>; \<open>OtherError\<close> stands for every class that no handler of the module names.
\<close>

datatype exn = ImportError string | ModuleNotFoundError string | AttributeError string
  | OtherError string

text \<open>\<^verbatim>\<open>except (ImportError, AttributeError, ModuleNotFoundError)\<close>\<close>

fun caught_primary :: "exn \<Rightarrow> bool" where
  "caught_primary (ImportError m) = True"
| "caught_primary (ModuleNotFoundError m) = True"
| "caught_primary (AttributeError m) = True"
| "caught_primary (OtherError m) = False"

text \<open>\<^verbatim>\<open>except ImportError\<close>\<close>

fun is_ImportError :: "exn \<Rightarrow> bool" where
  "is_ImportError (ImportError m) = True"
| "is_ImportError (ModuleNotFoundError m) = True"
| "is_ImportError (AttributeError m) = False"
| "is_ImportError (OtherError m) = False"

text \<open>The three-argument \<^verbatim>\<open>getattr(obj, name, default)\<close> swallows \<^verbatim>\<open>AttributeError\<close> only.\<close>

fun is_AttributeError :: "exn \<Rightarrow> bool" where
  "is_AttributeError (AttributeError m) = True"
| "is_AttributeError (ImportError m) = False"
| "is_AttributeError (ModuleNotFoundError m) = False"
| "is_AttributeError (OtherError m) = False"

text \<open>
  The host: \<^verbatim>\<open>importlib.import_module\<close> on a module name and \<^verbatim>\<open>getattr\<close> on a loaded
  module, both fallible.
\<close>

record ('m, 'v) host =
  import_module :: "string \<Rightarrow> exn + 'm"
  getattr :: "'m \<Rightarrow> string \<Rightarrow> exn + 'v"

text \<open>A text between apostrophes, as the messages print names.\<close>

definition quoted :: "string \<Rightarrow> string" where
  "quoted s = [CHR 0x27] @ s @ [CHR 0x27]"

text \<open>
  \<^verbatim>\<open>importlib.import_module(x)\<close> for any value \<open>x\<close>: it starts with \<^verbatim>\<open>x.startswith('.')\<close>,
  which raises \<^verbatim>\<open>AttributeError\<close> when \<open>x\<close> is \<^verbatim>\<open>None\<close> or the class \<^verbatim>\<open>_Future\<close>.
\<close>

definition import_module_val :: "('m, 'v) host \<Rightarrow> pyval \<Rightarrow> exn + 'm" where
  "import_module_val h x =
     (case x of
        PStr s \<Rightarrow> import_module h s
      | PNone \<Rightarrow>
          Inl (AttributeError (quoted ''NoneType'' @ '' object has no attribute ''
                 @ quoted ''startswith''))
      | PFuture \<Rightarrow>
          Inl (AttributeError (''type object '' @ quoted ''_Future'' @ '' has no attribute ''
                 @ quoted ''startswith'')))"

text \<open>\<^verbatim>\<open>str(x)\<close>, as the f-strings of the error messages format a sentinel's value.\<close>

definition str_of :: "pyval \<Rightarrow> string" where
  "str_of x =
     (case x of PStr s \<Rightarrow> s | PNone \<Rightarrow> ''None''
      | PFuture \<Rightarrow> ''<class '' @ [CHR 0x27] @ ''safelib._Future'' @ [CHR 0x27] @ ''>'')"

subsection \<open>Sentinels in a store\<close>

type_synonym addr = nat

record sentinel =
  s_value :: pyval
  s_empty :: bool
  s_future :: bool

text \<open>A new \<^verbatim>\<open>_Sentinel()\<close> reads the class defaults.\<close>

definition new_sentinel :: sentinel where
  "new_sentinel = \<lparr>s_value = PNone, s_empty = True, s_future = False\<rparr>"

text \<open>
  An instance of \<^verbatim>\<open>_State\<close> is its instance dictionary: an attribute that was never
  assigned on the instance is \<open>None\<close> here and is read from the class.
\<close>

record state_obj =
  o_main :: "addr option"
  o_fallback :: "addr option"
  o_raise_exc :: "bool option"

text \<open>\<^verbatim>\<open>_State()\<close>\<close>

definition new_state :: state_obj where
  "new_state = \<lparr>o_main = None, o_fallback = None, o_raise_exc = None\<rparr>"

text \<open>
  The class attributes \<^verbatim>\<open>_State.main\<close>, \<^verbatim>\<open>_State.fallback\<close> (two sentinel objects created
  when the class body runs) and \<^verbatim>\<open>_State._raise_exc = False\<close>.
\<close>

definition cls_main :: addr where
  "cls_main = 0"

definition cls_fallback :: addr where
  "cls_fallback = 1"

definition cls_raise_exc :: bool where
  "cls_raise_exc = False"

text \<open>Attribute reads \<^verbatim>\<open>st.main\<close>, \<^verbatim>\<open>st.fallback\<close>, \<^verbatim>\<open>st._raise_exc\<close>: instance first, class next.\<close>

definition main_of :: "state_obj \<Rightarrow> addr" where
  "main_of st = (case o_main st of Some a \<Rightarrow> a | None \<Rightarrow> cls_main)"

definition fallback_of :: "state_obj \<Rightarrow> addr" where
  "fallback_of st = (case o_fallback st of Some a \<Rightarrow> a | None \<Rightarrow> cls_fallback)"

definition raise_exc_of :: "state_obj \<Rightarrow> bool" where
  "raise_exc_of st = (case o_raise_exc st of Some b \<Rightarrow> b | None \<Rightarrow> cls_raise_exc)"

text \<open>
  The property \<^verbatim>\<open>_State.raises\<close>: its body is the expression statement
  \<^verbatim>\<open>self._raise_exc\<close> with no \<^verbatim>\<open>return\<close>, so the call evaluates the flag and returns
  \<^verbatim>\<open>None\<close>.
\<close>

definition raises :: "state_obj \<Rightarrow> bool option" where
  "raises st = (let discarded = raise_exc_of st in None)"

text \<open>Truthiness of what \<^verbatim>\<open>state.raises\<close> returns, as tested by \<^verbatim>\<open>if state.raises:\<close>.\<close>

fun truthy_opt :: "bool option \<Rightarrow> bool" where
  "truthy_opt None = False"
| "truthy_opt (Some b) = b"

text \<open>
  The world: the store of sentinel objects with its allocation pointer, the module global
  \<^verbatim>\<open>state\<close>, and a history of the arguments \<^verbatim>\<open>importlib.import_module\<close> was called with
  (oldest first), kept to state in which order the namespaces are consulted.
\<close>

record world =
  heap :: "addr \<Rightarrow> sentinel"
  next_addr :: addr
  state :: state_obj
  import_calls :: "pyval list"

text \<open>The world after the module has been imported: \<^verbatim>\<open>state = _State()\<close>.\<close>

definition init_world :: world where
  "init_world = \<lparr>heap = (\<lambda>a. new_sentinel), next_addr = 2, state = new_state,
     import_calls = []\<rparr>"

definition called :: "pyval \<Rightarrow> world \<Rightarrow> world" where
  "called x w = w\<lparr>import_calls := import_calls w @ [x]\<rparr>"

text \<open>\<^verbatim>\<open>_Sentinel.copy\<close>: a new object with the three fields of the receiver.\<close>

definition sentinel_copy :: "addr \<Rightarrow> world \<Rightarrow> addr \<times> world" where
  "sentinel_copy a w =
     (let b = next_addr w;
          c = \<lparr>s_value = s_value (heap w a), s_empty = s_empty (heap w a),
               s_future = s_future (heap w a)\<rparr>
      in (b, w\<lparr>heap := (heap w)(b := c), next_addr := Suc b\<rparr>))"

text \<open>\<^verbatim>\<open>_Sentinel.reset\<close>\<close>

definition sentinel_reset :: "addr \<Rightarrow> world \<Rightarrow> world" where
  "sentinel_reset a w =
     w\<lparr>heap := (heap w)(a := \<lparr>s_value = PNone, s_empty = True, s_future = False\<rparr>)\<rparr>"

text \<open>\<^verbatim>\<open>_State.reset\<close>\<close>

definition state_reset :: "state_obj \<Rightarrow> world \<Rightarrow> world" where
  "state_reset st w = sentinel_reset (fallback_of st) (sentinel_reset (main_of st) w)"

text \<open>\<^verbatim>\<open>_State.catch\<close>, called on the module global \<^verbatim>\<open>state\<close>: an instance attribute is set.\<close>

definition state_catch :: "world \<Rightarrow> world" where
  "state_catch w = w\<lparr>state := (state w)\<lparr>o_raise_exc := Some False\<rparr>\<rparr>"

subsection \<open>The lookup: module-level \<^verbatim>\<open>__getattr__(name, state=None)\<close>\<close>

datatype ('m, 'v) entity = Module 'm | Attr 'v | SentinelObj addr | FutureCls | NotFoundCls

text \<open>The body of the \<^verbatim>\<open>try\<close>: the attempt on the primary module.\<close>

definition primary_attempt ::
  "('m, 'v) host \<Rightarrow> string \<Rightarrow> state_obj \<Rightarrow> world \<Rightarrow> (exn + ('m, 'v) entity) \<times> world" where
  "primary_attempt h name st w =
     (let mv = s_value (heap w (main_of st)) in
      if PStr name = mv then
        (case import_module h name of
           Inl e \<Rightarrow> (Inl e, called (PStr name) w)
         | Inr m \<Rightarrow> (Inr (Module m), called (PStr name) w))
      else
        (case import_module_val h mv of
           Inl e \<Rightarrow> (Inl e, called mv w)
         | Inr m \<Rightarrow>
            (case getattr h m name of
               Inl e \<Rightarrow> (Inl e, called mv w)
             | Inr v \<Rightarrow> (Inr (Attr v), called mv w))))"

text \<open>The body of the \<^verbatim>\<open>except\<close> handler: the attempt on the fallback module and the policy.\<close>

definition on_failure ::
  "('m, 'v) host \<Rightarrow> string \<Rightarrow> state_obj \<Rightarrow> world \<Rightarrow> (exn + ('m, 'v) entity) \<times> world" where
  "on_failure h name st w =
     (let fv = s_value (heap w (fallback_of st));
          mv = s_value (heap w (main_of st)) in
      if \<not> s_empty (heap w (fallback_of st)) then
        (if PStr name = fv then
           (case import_module h name of
              Inr m \<Rightarrow> (Inr (Module m), called (PStr name) w)
            | Inl e \<Rightarrow>
               if is_ImportError e then
                 (if truthy_opt (raises st)
                  then (Inl (ImportError (''Module '' @ quoted (str_of fv) @ '' not found'')),
                        called (PStr name) w)
                  else (Inr NotFoundCls, called (PStr name) w))
               else (Inl e, called (PStr name) w))
         else if truthy_opt (raises st) then
           (case import_module_val h fv of
              Inl e \<Rightarrow> (Inl e, called fv w)
            | Inr m \<Rightarrow>
               (case getattr h m name of
                  Inl e \<Rightarrow> (Inl e, called fv w)
                | Inr v \<Rightarrow> (Inr (Attr v), called fv w)))
         else
           (case import_module_val h fv of
              Inl e \<Rightarrow> (Inl e, called fv w)
            | Inr m \<Rightarrow>
               (case getattr h m name of
                  Inl e \<Rightarrow>
                    if is_AttributeError e then (Inr NotFoundCls, called fv w)
                    else (Inl e, called fv w)
                | Inr v \<Rightarrow> (Inr (Attr v), called fv w))))
      else if truthy_opt (raises st) then
        (Inl (ImportError (''Module '' @ quoted (str_of mv) @ '' has no attribute ''
                @ quoted name)), w)
      else (Inr NotFoundCls, w))"

text \<open>
  One of the two blocks \<^verbatim>\<open>if state.main.future: ...\<close> and
  \<^verbatim>\<open>if state.fallback.future: ...\<close>: a pending sentinel takes the looked-up name as its
  value.
\<close>

definition consume_future :: "addr \<Rightarrow> string \<Rightarrow> world \<Rightarrow> world" where
  "consume_future a name w =
     (if s_future (heap w a)
      then w\<lparr>heap := (heap w)(a := (heap w a)\<lparr>s_value := PStr name, s_future := False\<rparr>)\<rparr>
      else w)"

text \<open>
  The final \<^verbatim>\<open>else\<close> branch, for a name that is none of the three control names, down
  to the last line \<^verbatim>\<open>return _Future\<close>.  An exception of the \<^verbatim>\<open>try\<close> body that the
  handler does not name propagates.
\<close>

definition resolve_ordinary ::
  "('m, 'v) host \<Rightarrow> string \<Rightarrow> state_obj \<Rightarrow> world \<Rightarrow> (exn + ('m, 'v) entity) \<times> world" where
  "resolve_ordinary h name st w =
     (let w1 = consume_future (main_of st) name w;
          w2 = consume_future (fallback_of st) name w1
      in if truthy (s_value (heap w2 (main_of st))) then
           (let r = primary_attempt h name st w2
            in case fst r of
                 Inr x \<Rightarrow> r
               | Inl e \<Rightarrow> if caught_primary e then on_failure h name st (snd r) else r)
         else (Inr FutureCls, w2))"

text \<open>
  \<^verbatim>\<open>__getattr__(name, state=None)\<close>.  The first argument of the model is the host; the
  \<open>state\<close> argument is \<open>None\<close> when Python calls the module hook with the name alone,
  and \<open>state_or_new\<close> is the opening \<^verbatim>\<open>if state is None: state = _State()\<close>.
  After \<^verbatim>\<open>state.reset()\<close> the \<^verbatim>\<open>_reset\<close> branch falls through to the final
  \<^verbatim>\<open>return _Future\<close>.
\<close>

definition state_or_new :: "state_obj option \<Rightarrow> state_obj" where
  "state_or_new state_arg = (case state_arg of None \<Rightarrow> new_state | Some s \<Rightarrow> s)"

definition safelib_getattr ::
  "('m, 'v) host \<Rightarrow> string \<Rightarrow> state_obj option \<Rightarrow> world \<Rightarrow> (exn + ('m, 'v) entity) \<times> world"
  where
  "safelib_getattr h name state_arg w =
     (let st = state_or_new state_arg in
      if name = ''_reset'' then (Inr FutureCls, state_reset st w)
      else if name = ''_main'' then
        (Inr (SentinelObj (main_of st)),
         w\<lparr>heap := (heap w)(main_of st :=
              \<lparr>s_value = PFuture, s_empty = False, s_future = True\<rparr>)\<rparr>)
      else if name = ''_fallback'' then
        (Inr (SentinelObj (fallback_of st)),
         w\<lparr>heap := (heap w)(fallback_of st :=
              \<lparr>s_value = PFuture, s_empty = False, s_future = True\<rparr>)\<rparr>)
      else resolve_ordinary h name st w)"

subsection \<open>The context manager \<^verbatim>\<open>Import\<close>\<close>

record import_obj =
  i_main :: string
  i_fallback :: string
  i_old_state :: "state_obj option"

text \<open>\<^verbatim>\<open>Import.__init__(main, fallback, raises=True)\<close>\<close>

definition Import_init :: "string \<Rightarrow> string \<Rightarrow> bool \<Rightarrow> world \<Rightarrow> import_obj \<times> world" where
  "Import_init main fallback rs w =
     (let self = \<lparr>i_main = main, i_fallback = fallback, i_old_state = None\<rparr>
      in if \<not> rs then (self, state_catch w) else (self, w))"

text \<open>\<^verbatim>\<open>Import.enter\<close> (also \<^verbatim>\<open>__enter__\<close> and \<^verbatim>\<open>__aenter__\<close>)\<close>

definition enter :: "import_obj \<Rightarrow> world \<Rightarrow> import_obj \<times> world" where
  "enter self w =
     (let (a, w1) = sentinel_copy (main_of (state w)) w;
          (b, w2) = sentinel_copy (fallback_of (state w1)) w1;
          old = new_state\<lparr>o_main := Some a, o_fallback := Some b\<rparr>;
          w3 = w2\<lparr>heap := (heap w2)(main_of (state w2) :=
                 \<lparr>s_value = PStr (i_main self), s_empty = False, s_future = False\<rparr>)\<rparr>;
          w4 = w3\<lparr>heap := (heap w3)(fallback_of (state w3) :=
                 \<lparr>s_value = PStr (i_fallback self), s_empty = False, s_future = False\<rparr>)\<rparr>
      in (self\<lparr>i_old_state := Some old\<rparr>, w4))"

text \<open>
  \<^verbatim>\<open>Import.exit(exc_type, exc_val, exc_tb)\<close> (also \<^verbatim>\<open>__exit__\<close> and \<^verbatim>\<open>__aexit__\<close>); the
  exception of the scope body, if any, is the second argument and is not looked at.  Before
  any \<^verbatim>\<open>enter\<close> the attribute \<^verbatim>\<open>_old_state\<close> is \<^verbatim>\<open>None\<close> and reading \<^verbatim>\<open>.main\<close> of it raises.
\<close>

definition exit :: "import_obj \<Rightarrow> exn option \<Rightarrow> world \<Rightarrow> (exn + unit) \<times> world" where
  "exit self exc w =
     (case i_old_state self of
        None \<Rightarrow>
          (Inl (AttributeError (quoted ''NoneType'' @ '' object has no attribute ''
                  @ quoted ''main'')), w)
      | Some old \<Rightarrow>
         (let (a, w1) = sentinel_copy (main_of old) w;
              w2 = w1\<lparr>state := (state w1)\<lparr>o_main := Some a\<rparr>\<rparr>;
              (b, w3) = sentinel_copy (fallback_of old) w2;
              w4 = w3\<lparr>state := (state w3)\<lparr>o_fallback := Some b\<rparr>\<rparr>
          in (Inr (), w4)))"

text \<open>\<^verbatim>\<open>Import.reset_state\<close>\<close>

definition reset_state :: "world \<Rightarrow> world" where
  "reset_state w = state_reset (state w) w"

text \<open>\<^verbatim>\<open>Import.get_entity\<close> and \<^verbatim>\<open>Import.__getattr__\<close>: the lookup on the module global \<^verbatim>\<open>state\<close>.\<close>

definition get_entity ::
  "('m, 'v) host \<Rightarrow> string \<Rightarrow> world \<Rightarrow> (exn + ('m, 'v) entity) \<times> world" where
  "get_entity h name w = safelib_getattr h name (Some (state w)) w"

subsection \<open>Sequences of calls, well-formed worlds\<close>

text \<open>
  What client code can do with the library: construct an \<^verbatim>\<open>Import\<close>, enter or leave one,
  look a name up through a handle or through the module, reset.  A scope body is a list of
  such calls; \<open>api_run\<close> performs them in order and keeps the world.
\<close>

datatype api_call =
    Construct string string bool
  | Enter import_obj
  | Exit import_obj "exn option"
  | GetEntity string
  | ModuleGetattr string
  | ResetState

fun api_step :: "('m, 'v) host \<Rightarrow> api_call \<Rightarrow> world \<Rightarrow> world" where
  "api_step h (Construct p f rs) w = snd (Import_init p f rs w)"
| "api_step h (Enter i) w = snd (enter i w)"
| "api_step h (Exit i exc) w = snd (exit i exc w)"
| "api_step h (GetEntity n) w = snd (get_entity h n w)"
| "api_step h (ModuleGetattr n) w = snd (safelib_getattr h n None w)"
| "api_step h ResetState w = reset_state w"

fun api_run :: "('m, 'v) host \<Rightarrow> api_call list \<Rightarrow> world \<Rightarrow> world" where
  "api_run h [] w = w"
| "api_run h (c # cs) w = api_run h cs (api_step h c w)"

text \<open>
  The store discipline of every world the library reaches: the two class-level sentinels are
  allocated, the sentinels of the module global \<^verbatim>\<open>state\<close> are allocated and are two
  objects.
\<close>

definition wf_world :: "world \<Rightarrow> bool" where
  "wf_world w \<longleftrightarrow>
     2 \<le> next_addr w \<and> main_of (state w) < next_addr w \<and>
     fallback_of (state w) < next_addr w \<and> main_of (state w) \<noteq> fallback_of (state w)"

text \<open>
  An allocated sentinel that neither the class \<^verbatim>\<open>_State\<close> nor the module global
  \<^verbatim>\<open>state\<close> refers to, as the two snapshot copies that \<^verbatim>\<open>enter\<close> stores in
  \<^verbatim>\<open>self._old_state\<close>.
\<close>

definition unreferenced :: "addr \<Rightarrow> world \<Rightarrow> bool" where
  "unreferenced a w \<longleftrightarrow>
     2 \<le> a \<and> a < next_addr w \<and> main_of (state w) \<noteq> a \<and> fallback_of (state w) \<noteq> a"

subsection \<open>A small host for concrete runs\<close>

text \<open>
  Four loadable modules with a few attributes each; every other name fails to load with
  \<^verbatim>\<open>ModuleNotFoundError\<close>.  A module object is identified by its name, an attribute
  value by its dotted path.
\<close>

definition demo_modules :: "(string \<times> string list) list" where
  "demo_modules =
     [(''typing'', [''Any'', ''Protocol'']),
      (''typing_extensions'', [''Protocol'', ''deprecated'']),
      (''json'', [''dumps'']),
      (''datetime'', [''datetime'', ''date''])]"

definition demo_host :: "(string, string) host" where
  "demo_host =
     \<lparr>import_module = (\<lambda>n. if n \<in> set (map fst demo_modules) then Inr n
                             else Inl (ModuleNotFoundError n)),
      getattr = (\<lambda>m a. case map_of demo_modules m of
                           Some as \<Rightarrow> if a \<in> set as then Inr (m @ ''.'' @ a)
                                      else Inl (AttributeError a)
                         | None \<Rightarrow> Inl (AttributeError a))\<rparr>"

text \<open>
  \<^verbatim>\<open>Import(p, f, raises).enter()\<close> in a world: the entered handle and the world inside the
  scope.
\<close>

definition open_scope :: "string \<Rightarrow> string \<Rightarrow> bool \<Rightarrow> world \<Rightarrow> import_obj \<times> world" where
  "open_scope p f rs w = (let (i, w1) = Import_init p f rs w in enter i w1)"

text \<open>The world inside \<^verbatim>\<open>with Import('typing', 'typing_extensions'):\<close> in a new process.\<close>

definition typing_scope :: world where
  "typing_scope = snd (open_scope ''typing'' ''typing_extensions'' True init_world)"

section \<open>Basic facts\<close>

lemmas run_defs = open_scope_def Import_init_def enter_def exit_def get_entity_def
  safelib_getattr_def state_or_new_def resolve_ordinary_def consume_future_def
  primary_attempt_def on_failure_def import_module_val_def called_def sentinel_copy_def
  state_catch_def init_world_def new_state_def new_sentinel_def main_of_def fallback_of_def
  cls_main_def cls_fallback_def raises_def demo_host_def demo_modules_def typing_scope_def
  Let_def

lemma raises_falsy: "truthy_opt (raises st) = False"
  by (simp add: raises_def)

lemma ordinary_getattr:
  "n \<noteq> ''_reset'' \<Longrightarrow> n \<noteq> ''_main'' \<Longrightarrow> n \<noteq> ''_fallback'' \<Longrightarrow>
   safelib_getattr h n sa w = resolve_ordinary h n (state_or_new sa) w"
  by (simp add: safelib_getattr_def)

lemma consume_future_idle: "\<not> s_future (heap w a) \<Longrightarrow> consume_future a n w = w"
  by (simp add: consume_future_def)

lemma consume_future_calls: "import_calls (consume_future a n w) = import_calls w"
  by (simp add: consume_future_def)

lemma consume_future_settled:
  "\<not> s_future (heap w a) \<Longrightarrow> heap (consume_future b n w) a = heap w a"
  by (cases "a = b") (simp_all add: consume_future_def)

lemma primary_attempt_symbol:
  assumes "s_value (heap w (main_of st)) = PStr P" "S \<noteq> P"
  shows "primary_attempt h S st w =
     (case import_module h P of
        Inl e \<Rightarrow> (Inl e, called (PStr P) w)
      | Inr m \<Rightarrow> (case getattr h m S of
                    Inl e \<Rightarrow> (Inl e, called (PStr P) w)
                  | Inr v \<Rightarrow> (Inr (Attr v), called (PStr P) w)))"
  using assms by (simp add: primary_attempt_def import_module_val_def Let_def)

lemma on_failure_calls:
  "import_calls (snd (on_failure h S st w)) = import_calls w \<or>
   import_calls (snd (on_failure h S st w)) = import_calls w @ [s_value (heap w (fallback_of st))]"
  by (simp add: on_failure_def Let_def called_def raises_falsy split: sum.splits)


subsection \<open>What a lookup and a scope leave alone\<close>

lemma consume_future_value_same:
  "s_value (heap w a) = PStr n \<Longrightarrow> s_value (heap (consume_future b n w) a) = PStr n"
  by (simp add: consume_future_def)

lemma consume_future_empty:
  "s_empty (heap (consume_future b n w) a) = s_empty (heap w a)"
  by (simp add: consume_future_def)

lemma consume_future_taken:
  "s_future (heap w a) \<Longrightarrow>
   heap (consume_future a n w) a = (heap w a)\<lparr>s_value := PStr n, s_future := False\<rparr>"
  by (simp add: consume_future_def)

lemma primary_attempt_self:
  assumes "s_value (heap w (main_of st)) = PStr n"
  shows "primary_attempt h n st w =
     (case import_module h n of
        Inl e \<Rightarrow> (Inl e, called (PStr n) w)
      | Inr m \<Rightarrow> (Inr (Module m), called (PStr n) w))"
  using assms by (simp add: primary_attempt_def Let_def)

lemma on_failure_self:
  assumes "\<not> s_empty (heap w (fallback_of st))" "s_value (heap w (fallback_of st)) = PStr n"
    "import_module h n = Inr m"
  shows "on_failure h n st w = (Inr (Module m), called (PStr n) w)"
  using assms by (simp add: on_failure_def Let_def)

lemma primary_attempt_frame:
  "heap (snd (primary_attempt h n st w)) = heap w"
  "state (snd (primary_attempt h n st w)) = state w"
  "next_addr (snd (primary_attempt h n st w)) = next_addr w"
  by (simp_all add: primary_attempt_def called_def Let_def split: sum.splits)

lemma on_failure_frame:
  "heap (snd (on_failure h n st w)) = heap w"
  "state (snd (on_failure h n st w)) = state w"
  "next_addr (snd (on_failure h n st w)) = next_addr w"
  by (simp_all add: on_failure_def called_def Let_def raises_falsy split: sum.splits)

lemma consume_future_frame:
  "state (consume_future a n w) = state w"
  "next_addr (consume_future a n w) = next_addr w"
  "c \<noteq> a \<Longrightarrow> heap (consume_future a n w) c = heap w c"
  by (simp_all add: consume_future_def)

lemma resolve_ordinary_frame:
  "state (snd (resolve_ordinary h n st w)) = state w"
  "next_addr (snd (resolve_ordinary h n st w)) = next_addr w"
  "c \<noteq> main_of st \<Longrightarrow> c \<noteq> fallback_of st \<Longrightarrow>
     heap (snd (resolve_ordinary h n st w)) c = heap w c"
  by (simp_all add: resolve_ordinary_def Let_def consume_future_frame primary_attempt_frame
      on_failure_frame split: sum.splits)

lemma getattr_frame:
  "state (snd (safelib_getattr h n sa w)) = state w"
  "next_addr (snd (safelib_getattr h n sa w)) = next_addr w"
  "c \<noteq> main_of (state_or_new sa) \<Longrightarrow> c \<noteq> fallback_of (state_or_new sa) \<Longrightarrow>
     heap (snd (safelib_getattr h n sa w)) c = heap w c"
  by (simp_all add: safelib_getattr_def Let_def state_reset_def sentinel_reset_def
      resolve_ordinary_frame)

lemma enter_frame:
  "state (snd (enter i w)) = state w"
  "next_addr (snd (enter i w)) = Suc (Suc (next_addr w))"
  "c \<noteq> main_of (state w) \<Longrightarrow> c \<noteq> fallback_of (state w) \<Longrightarrow> c < next_addr w \<Longrightarrow>
     heap (snd (enter i w)) c = heap w c"
  by (simp_all add: enter_def sentinel_copy_def Let_def)

lemma exit_flag: "o_raise_exc (state (snd (exit i exc w))) = o_raise_exc (state w)"
  by (simp add: exit_def sentinel_copy_def Let_def split: option.splits)

lemma Import_init_raising: "snd (Import_init p f True w) = w"
  by (simp add: Import_init_def)

lemma Import_init_silent: "o_raise_exc (state (snd (Import_init p f False w))) = Some False"
  by (simp add: Import_init_def state_catch_def)

lemma api_step_flag:
  "o_raise_exc (state w) = Some False \<Longrightarrow> o_raise_exc (state (api_step h c w)) = Some False"
  by (cases c)
     (simp_all add: Import_init_def state_catch_def enter_frame exit_flag get_entity_def
        getattr_frame reset_state_def state_reset_def sentinel_reset_def Let_def)

lemma api_run_flag:
  "o_raise_exc (state w) = Some False \<Longrightarrow> o_raise_exc (state (api_run h cs w)) = Some False"
  by (induction cs arbitrary: w) (simp_all add: api_step_flag)

lemma primary_attempt_heap: "heap (snd (primary_attempt h n st w)) = heap w"
  by (simp add: primary_attempt_def called_def Let_def split: sum.splits)

lemma on_failure_heap: "heap (snd (on_failure h n st w)) = heap w"
  by (simp add: on_failure_def called_def Let_def raises_falsy split: sum.splits)

lemma on_failure_calls_ext:
  "\<exists>ext. import_calls (snd (on_failure h S st w)) = import_calls w @ ext"
  using on_failure_calls [of h S st w] by auto

lemma resolve_ordinary_heap:
  "heap (snd (resolve_ordinary h n st w)) =
   heap (consume_future (fallback_of st) n (consume_future (main_of st) n w))"
  by (simp add: resolve_ordinary_def Let_def primary_attempt_heap on_failure_heap
      split: sum.splits)

lemma sentinel_copy_frame:
  "fst (sentinel_copy a w) = next_addr w"
  "state (snd (sentinel_copy a w)) = state w"
  "next_addr (snd (sentinel_copy a w)) = Suc (next_addr w)"
  "heap (snd (sentinel_copy a w)) (next_addr w) = heap w a"
  "c \<noteq> next_addr w \<Longrightarrow> heap (snd (sentinel_copy a w)) c = heap w c"
  by (simp_all add: sentinel_copy_def Let_def)

lemma exit_entered:
  assumes "i_old_state i = Some old"
  shows "fst (exit i exc w) = Inr ()"
    "main_of (state (snd (exit i exc w))) = next_addr w"
    "fallback_of (state (snd (exit i exc w))) = Suc (next_addr w)"
    "next_addr (snd (exit i exc w)) = Suc (Suc (next_addr w))"
    "c < next_addr w \<Longrightarrow> heap (snd (exit i exc w)) c = heap w c"
    "heap (snd (exit i exc w)) (next_addr w) = heap w (main_of old)"
    "fallback_of old \<noteq> next_addr w \<Longrightarrow>
       heap (snd (exit i exc w)) (Suc (next_addr w)) = heap w (fallback_of old)"
  using assms
  by (simp_all add: exit_def sentinel_copy_def Let_def main_of_def fallback_of_def)

lemma exit_unentered:
  "i_old_state i = None \<Longrightarrow> snd (exit i exc w) = w"
  by (simp add: exit_def)

lemma enter_snapshot:
  "\<exists>old. i_old_state (fst (enter i w)) = Some old \<and> main_of old = next_addr w \<and>
         fallback_of old = Suc (next_addr w)"
  by (simp add: enter_def sentinel_copy_def Let_def main_of_def fallback_of_def new_state_def)

lemma enter_snapshot_heap:
  assumes "main_of (state w) < next_addr w" "fallback_of (state w) < next_addr w"
  shows "heap (snd (enter i w)) (next_addr w) = heap w (main_of (state w))"
    "heap (snd (enter i w)) (Suc (next_addr w)) = heap w (fallback_of (state w))"
  using assms by (simp_all add: enter_def sentinel_copy_def Let_def)

lemma api_step_unreferenced:
  assumes "unreferenced a w"
  shows "unreferenced a (api_step h c w) \<and> heap (api_step h c w) a = heap w a"
proof (cases c)
  case (Construct p f rs)
  then show ?thesis using assms
    by (simp add: unreferenced_def Import_init_def state_catch_def Let_def main_of_def
        fallback_of_def)
next
  case (Enter i)
  then show ?thesis using assms
    by (simp add: unreferenced_def enter_frame)
next
  case (Exit i exc)
  show ?thesis
  proof (cases "i_old_state i")
    case None
    then show ?thesis using assms Exit by (simp add: exit_unentered)
  next
    case (Some old)
    then show ?thesis using assms Exit
      by (simp add: unreferenced_def exit_entered)
  qed
next
  case (GetEntity n)
  then show ?thesis using assms
    by (simp add: unreferenced_def get_entity_def getattr_frame state_or_new_def)
next
  case (ModuleGetattr n)
  then show ?thesis using assms
    by (simp add: unreferenced_def getattr_frame state_or_new_def new_state_def main_of_def
        fallback_of_def cls_main_def cls_fallback_def)
next
  case ResetState
  then show ?thesis using assms
    by (auto simp add: unreferenced_def reset_state_def state_reset_def sentinel_reset_def)
qed

lemma api_run_unreferenced:
  "unreferenced a w \<Longrightarrow>
   unreferenced a (api_run h cs w) \<and> heap (api_run h cs w) a = heap w a"
proof (induction cs arbitrary: w)
  case Nil
  then show ?case by simp
next
  case (Cons c cs)
  from api_step_unreferenced [OF Cons.prems, of h c]
  have s: "unreferenced a (api_step h c w)" "heap (api_step h c w) a = heap w a" by blast+
  from Cons.IH [OF s(1)] s(2) show ?case by simp
qed

lemma consume_future_here:
  "heap (consume_future a n w) a =
     (if s_future (heap w a) then (heap w a)\<lparr>s_value := PStr n, s_future := False\<rparr>
      else heap w a)"
  by (simp add: consume_future_def)

lemma consumed_both:
  assumes "a \<noteq> b"
  shows "heap (consume_future b n (consume_future a n w)) a =
           (if s_future (heap w a) then (heap w a)\<lparr>s_value := PStr n, s_future := False\<rparr>
            else heap w a)"
    "heap (consume_future b n (consume_future a n w)) b =
           (if s_future (heap w b) then (heap w b)\<lparr>s_value := PStr n, s_future := False\<rparr>
            else heap w b)"
  using assms by (simp_all add: consume_future_def)

lemma fst_primary_attempt_cong:
  "s_value (heap w (main_of st)) = s_value (heap w' (main_of st')) \<Longrightarrow>
   fst (primary_attempt h n st w) = fst (primary_attempt h n st' w')"
  by (simp add: primary_attempt_def Let_def split: sum.splits)

lemma fst_on_failure_cong:
  "heap w (fallback_of st) = heap w' (fallback_of st') \<Longrightarrow>
   s_value (heap w (main_of st)) = s_value (heap w' (main_of st')) \<Longrightarrow>
   fst (on_failure h n st w) = fst (on_failure h n st' w')"
  by (simp add: on_failure_def Let_def raises_falsy split: sum.splits)

lemma fst_resolve_ordinary_cong:
  assumes m: "heap w (main_of st) = heap w' (main_of st')"
      and f: "heap w (fallback_of st) = heap w' (fallback_of st')"
      and d: "main_of st \<noteq> fallback_of st" "main_of st' \<noteq> fallback_of st'"
  shows "fst (resolve_ordinary h n st w) = fst (resolve_ordinary h n st' w')"
proof -
  let ?w2 = "consume_future (fallback_of st) n (consume_future (main_of st) n w)"
  let ?w2' = "consume_future (fallback_of st') n (consume_future (main_of st') n w')"
  have hm: "heap ?w2 (main_of st) = heap ?w2' (main_of st')"
    using m d by (simp add: consumed_both)
  have hf: "heap ?w2 (fallback_of st) = heap ?w2' (fallback_of st')"
    using f d by (simp add: consumed_both)
  let ?r = "primary_attempt h n st ?w2" and ?r' = "primary_attempt h n st' ?w2'"
  have r: "fst ?r = fst ?r'"
    using hm by (intro fst_primary_attempt_cong) simp
  have o: "fst (on_failure h n st (snd ?r)) = fst (on_failure h n st' (snd ?r'))"
    by (rule fst_on_failure_cong) (simp_all add: primary_attempt_frame hm hf)
  have t: "truthy (s_value (heap ?w2 (main_of st))) = truthy (s_value (heap ?w2' (main_of st')))"
    by (simp add: hm)
  show ?thesis
  proof (cases "fst ?r'")
    case (Inr x)
    then have "fst ?r = Inr x" using r by simp
    then show ?thesis
      using Inr t by (simp add: resolve_ordinary_def Let_def)
  next
    case (Inl e)
    then have "fst ?r = Inl e" using r by simp
    then show ?thesis
      using Inl t o by (simp add: resolve_ordinary_def Let_def)
  qed
qed

lemma fst_get_entity_cong:
  assumes m: "heap w (main_of (state w)) = heap w' (main_of (state w'))"
      and f: "heap w (fallback_of (state w)) = heap w' (fallback_of (state w'))"
      and d: "main_of (state w) \<noteq> fallback_of (state w)"
             "main_of (state w') \<noteq> fallback_of (state w')"
      and n: "n \<noteq> ''_main''" "n \<noteq> ''_fallback''"
  shows "fst (get_entity h n w) = fst (get_entity h n w')"
proof (cases "n = ''_reset''")
  case True
  then show ?thesis by (simp add: get_entity_def safelib_getattr_def Let_def)
next
  case False
  then show ?thesis
    using n fst_resolve_ordinary_cong [OF m f d]
    by (simp add: get_entity_def ordinary_getattr state_or_new_def)
qed

lemma wf_init_world: "wf_world init_world"
  by (simp add: wf_world_def init_world_def new_state_def main_of_def fallback_of_def
      cls_main_def cls_fallback_def)

lemma wf_api_step: "wf_world w \<Longrightarrow> wf_world (api_step h c w)"
proof (cases c)
  case (Exit i exc)
  assume "wf_world w"
  then show ?thesis using Exit
    by (cases "i_old_state i") (simp_all add: wf_world_def exit_unentered exit_entered)
qed (simp_all add: wf_world_def Import_init_def state_catch_def Let_def main_of_def
      fallback_of_def enter_frame get_entity_def getattr_frame reset_state_def state_reset_def
      sentinel_reset_def)

lemma wf_api_run: "wf_world w \<Longrightarrow> wf_world (api_run h cs w)"
  by (induction cs arbitrary: w) (simp_all add: wf_api_step)

section \<open>The error policy\<close>

text \<open>
  Claim C1.  In raising mode a failed lookup raises: in a scope opened with \<^verbatim>\<open>raises=True\<close>
  over two loadable modules that both lack the requested symbol, the lookup raises and never
  returns \<^verbatim>\<open>NotFound\<close>.

  The code does not do that.  The run below opens \<^verbatim>\<open>Import('typing', 'typing_extensions', True)\<close>
  in a new process and looks up \<^verbatim>\<open>missing\<close>, which neither module defines: the lookup
  returns \<^verbatim>\<open>NotFound\<close>, because \<^verbatim>\<open>state.raises\<close> returns \<^verbatim>\<open>None\<close> and every
  \<^verbatim>\<open>if state.raises:\<close> takes its \<^verbatim>\<open>else\<close> branch.
\<close>

theorem raising_scope_returns_NotFound:
  "import_module demo_host ''typing'' = Inr ''typing'' \<and>
   import_module demo_host ''typing_extensions'' = Inr ''typing_extensions'' \<and>
   getattr demo_host ''typing'' ''missing'' = Inl (AttributeError ''missing'') \<and>
   getattr demo_host ''typing_extensions'' ''missing'' = Inl (AttributeError ''missing'') \<and>
   fst (get_entity demo_host ''missing''
          (snd (open_scope ''typing'' ''typing_extensions'' True init_world)))
     = Inr NotFoundCls"
  by (simp add: run_defs)

text \<open>
  Claim C2.  In non-raising mode every lookup failure becomes \<^verbatim>\<open>NotFound\<close> and nothing is
  raised, whether a namespace fails to load or a loaded namespace lacks the symbol, for the
  primary and for the fallback attempt.

  The code misses one case.  In \<^verbatim>\<open>Import('typing', 'nosuch', False)\<close> the lookup of
  \<^verbatim>\<open>missing\<close> fails on the primary and then calls \<^verbatim>\<open>importlib.import_module('nosuch')\<close>
  inside the handler, outside any \<^verbatim>\<open>try\<close>: the loader's \<^verbatim>\<open>ModuleNotFoundError\<close> reaches
  the caller.
\<close>

theorem silent_scope_fallback_load_failure_raises:
  "raise_exc_of (state (snd (open_scope ''typing'' ''nosuch'' False init_world))) = False \<and>
   fst (get_entity demo_host ''missing''
          (snd (open_scope ''typing'' ''nosuch'' False init_world)))
     = Inl (ModuleNotFoundError ''nosuch'')"
  by (simp add: run_defs raise_exc_of_def)

text \<open>
  Claim C5.  The error policy defaults to raising: a newly created state has its flag true, so
  a failed lookup on it raises.

  The code declares \<^verbatim>\<open>_raise_exc: bool = False\<close>: the flag of a new \<^verbatim>\<open>_State()\<close> and of the
  module global \<^verbatim>\<open>state\<close> reads false, and a failed lookup in a scope opened with the
  default \<^verbatim>\<open>raises=True\<close> returns \<^verbatim>\<open>NotFound\<close>.
\<close>

theorem fresh_state_policy_not_raising:
  "raise_exc_of new_state = False \<and> raise_exc_of (state init_world) = False \<and>
   raise_exc_of (state typing_scope) = False \<and>
   fst (get_entity demo_host ''missing'' typing_scope) = Inr NotFoundCls"
  by (simp add: run_defs raise_exc_of_def cls_raise_exc_def)

section \<open>Module-level lookups and the shared class-level sentinels\<close>

text \<open>
  Claim C6.  A module-level lookup (the module's \<^verbatim>\<open>__getattr__\<close> called with the name alone)
  runs the resolution against the live state, so the configuration of an open scope governs
  module-level lookups made inside it.

  The code does that only until the first \<^verbatim>\<open>exit\<close>.  A module-level lookup builds a new
  \<^verbatim>\<open>_State()\<close>, which reads the class-level sentinels; \<^verbatim>\<open>exit\<close> gives the module global
  \<^verbatim>\<open>state\<close> instance attributes of its own, and from then on \<^verbatim>\<open>enter\<close> writes to those.  Below,
  a first scope over \<^verbatim>\<open>typing\<close> is opened and closed, then a scope over \<^verbatim>\<open>json\<close> is opened:
  inside it the handle finds \<^verbatim>\<open>json.dumps\<close>, the module-level lookup of \<^verbatim>\<open>dumps\<close> consults
  \<^verbatim>\<open>typing\<close> and \<^verbatim>\<open>typing_extensions\<close> and returns \<^verbatim>\<open>NotFound\<close>.
\<close>

theorem module_lookup_ignores_second_scope:
  "(let (i, w1) = open_scope ''typing'' ''typing_extensions'' True init_world;
        (r, w2) = exit i None w1;
        (j, w3) = open_scope ''json'' ''datetime'' True w2
    in r = Inr () \<and>
       fst (get_entity demo_host ''dumps'' w3) = Inr (Attr ''json.dumps'') \<and>
       fst (safelib_getattr demo_host ''dumps'' None w3) = Inr NotFoundCls \<and>
       import_calls (snd (safelib_getattr demo_host ''dumps'' None w3))
         = [PStr ''typing'', PStr ''typing_extensions''])"
  by (simp add: run_defs)

text \<open>
  Claim C7.  Starting from a new process, after a scope has been opened and closed a
  module-level lookup returns the \<^verbatim>\<open>_Future\<close> marker, as if no scope had been opened.

  The code does not restore the class-level sentinels: \<^verbatim>\<open>enter\<close> wrote the scope's names
  into them and \<^verbatim>\<open>exit\<close> rebinds attributes of the module global \<^verbatim>\<open>state\<close> instead.  Before
  any scope the module-level lookup of \<^verbatim>\<open>Any\<close> returns \<^verbatim>\<open>_Future\<close>; after
  \<^verbatim>\<open>Import('typing', 'typing_extensions')\<close> has been entered and left it returns
  \<^verbatim>\<open>typing.Any\<close>, while the lookup through the handle does return \<^verbatim>\<open>_Future\<close>.
\<close>

theorem module_lookup_after_close_not_Future:
  "fst (safelib_getattr demo_host ''Any'' None init_world) = Inr FutureCls \<and>
   (let (i, w1) = open_scope ''typing'' ''typing_extensions'' True init_world;
        (r, w2) = exit i None w1
    in r = Inr () \<and>
       fst (safelib_getattr demo_host ''Any'' None w2) = Inr (Attr ''typing.Any'') \<and>
       fst (get_entity demo_host ''Any'' w2) = Inr FutureCls)"
  by (simp add: run_defs)

section \<open>Resolution order\<close>




text \<open>
  Claim C9.  Self-reference resolves the namespace itself: when the primary sentinel holds the
  namespace name \<open>P\<close> and \<open>P\<close> loads, the lookup of \<open>P\<close> returns the module object of
  \<open>P\<close>, neither an attribute of it nor a failure; and when the primary attempt for the
  fallback's name \<open>F\<close> fails while \<open>F\<close> loads, the fallback attempt returns the module
  object of \<open>F\<close>.  Names are non-empty and none of the three control names.
\<close>

theorem self_reference:
  fixes h :: "('m, 'v) host"
  assumes P: "s_value (heap w (main_of (state_or_new sa))) = PStr P" "P \<noteq> []"
  shows "(P \<noteq> ''_reset'' \<and> P \<noteq> ''_main'' \<and> P \<noteq> ''_fallback'' \<longrightarrow>
          (\<forall>m. import_module h P = Inr m \<longrightarrow>
             fst (safelib_getattr h P sa w) = Inr (Module m)))
       \<and> (\<forall>F mf.
            F \<noteq> [] \<and> F \<noteq> ''_reset'' \<and> F \<noteq> ''_main'' \<and> F \<noteq> ''_fallback'' \<and> F \<noteq> P \<and>
            \<not> s_empty (heap w (fallback_of (state_or_new sa))) \<and>
            s_value (heap w (fallback_of (state_or_new sa))) = PStr F \<and>
            ((\<exists>e. import_module h P = Inl e \<and> caught_primary e) \<or>
             (\<exists>mp e. import_module h P = Inr mp \<and> getattr h mp F = Inl e \<and> caught_primary e)) \<and>
            import_module h F = Inr mf \<longrightarrow>
            fst (safelib_getattr h F sa w) = Inr (Module mf))"
proof (intro conjI impI allI)
  let ?st = "state_or_new sa"
  let ?a = "main_of ?st" and ?b = "fallback_of ?st"
  { fix m
    assume ord: "P \<noteq> ''_reset'' \<and> P \<noteq> ''_main'' \<and> P \<noteq> ''_fallback''"
      and ld: "import_module h P = Inr m"
    let ?w2 = "consume_future ?b P (consume_future ?a P w)"
    have v: "s_value (heap ?w2 ?a) = PStr P"
      using P(1) by (intro consume_future_value_same)
    have "resolve_ordinary h P ?st w = primary_attempt h P ?st ?w2"
      using v P(2) ld by (simp add: resolve_ordinary_def Let_def primary_attempt_self)
    then show "fst (safelib_getattr h P sa w) = Inr (Module m)"
      using ord v ld by (simp add: ordinary_getattr primary_attempt_self)
  }
  { fix F mf
    assume a: "F \<noteq> [] \<and> F \<noteq> ''_reset'' \<and> F \<noteq> ''_main'' \<and> F \<noteq> ''_fallback'' \<and> F \<noteq> P \<and>
            \<not> s_empty (heap w ?b) \<and> s_value (heap w ?b) = PStr F \<and>
            ((\<exists>e. import_module h P = Inl e \<and> caught_primary e) \<or>
             (\<exists>mp e. import_module h P = Inr mp \<and> getattr h mp F = Inl e \<and> caught_primary e)) \<and>
            import_module h F = Inr mf"
    then have ord: "F \<noteq> ''_reset''" "F \<noteq> ''_main''" "F \<noteq> ''_fallback''"
      and FP: "F \<noteq> P" and Fne: "F \<noteq> []" and ne: "\<not> s_empty (heap w ?b)" and fv: "s_value (heap w ?b) = PStr F"
      and ld: "import_module h F = Inr mf"
      by blast+
    from a have pf: "(\<exists>e. import_module h P = Inl e \<and> caught_primary e) \<or>
             (\<exists>mp e. import_module h P = Inr mp \<and> getattr h mp F = Inl e \<and> caught_primary e)"
      by blast
    let ?w1 = "consume_future ?a F w"
    let ?w2 = "consume_future ?b F ?w1"
    have ab: "?a \<noteq> ?b" using P(1) fv FP by auto
    have eq: "safelib_getattr h F sa w = resolve_ordinary h F ?st w"
      using ord by (simp add: ordinary_getattr)
    show "fst (safelib_getattr h F sa w) = Inr (Module mf)"
    proof (cases "s_future (heap w ?a)")
      case True
      then have "s_value (heap ?w1 ?a) = PStr F" by (simp add: consume_future_taken)
      then have v: "s_value (heap ?w2 ?a) = PStr F" by (rule consume_future_value_same)
      show ?thesis
        using v ld Fne by (simp add: eq resolve_ordinary_def Let_def primary_attempt_self)
    next
      case False
      then have w1: "?w1 = w" by (simp add: consume_future_idle)
      have hm: "heap ?w2 ?a = heap w ?a" unfolding w1
        using False by (simp add: consume_future_settled)
      have fv2: "s_value (heap ?w2 ?b) = PStr F" unfolding w1
        using fv by (rule consume_future_value_same)
      have ne2: "\<not> s_empty (heap ?w2 ?b)" unfolding w1
        using ne by (simp add: consume_future_empty)
      have pa: "primary_attempt h F ?st ?w2 =
         (case import_module h P of
            Inl e \<Rightarrow> (Inl e, called (PStr P) ?w2)
          | Inr m \<Rightarrow> (case getattr h m F of
                    Inl e \<Rightarrow> (Inl e, called (PStr P) ?w2)
                  | Inr v \<Rightarrow> (Inr (Attr v), called (PStr P) ?w2)))"
        using P FP by (intro primary_attempt_symbol) (simp_all add: hm)
      from pf obtain e where e: "fst (primary_attempt h F ?st ?w2) = Inl e" "caught_primary e"
        "snd (primary_attempt h F ?st ?w2) = called (PStr P) ?w2"
        unfolding pa by auto
      have fb1: "\<not> s_empty (heap (called (PStr P) ?w2) ?b)"
        "s_value (heap (called (PStr P) ?w2) ?b) = PStr F"
        using ne2 fv2 by (simp_all add: called_def)
      have onf: "on_failure h F ?st (called (PStr P) ?w2) =
          (Inr (Module mf), called (PStr F) (called (PStr P) ?w2))"
        using fb1 ld by (rule on_failure_self)
      have tr: "truthy (s_value (heap ?w2 ?a))" using P by (simp add: hm)
      show ?thesis
        unfolding eq resolve_ordinary_def Let_def
        using tr e onf by simp
    qed
  }
qed

theorem self_reference_witness:
  "fst (safelib_getattr demo_host ''datetime''
          (Some (state (snd (open_scope ''datetime'' ''typing'' True init_world))))
          (snd (open_scope ''datetime'' ''typing'' True init_world)))
     = Inr (Module ''datetime'') \<and>
   fst (safelib_getattr demo_host ''datetime''
          (Some (state (snd (open_scope ''typing'' ''datetime'' True init_world))))
          (snd (open_scope ''typing'' ''datetime'' True init_world)))
     = Inr (Module ''datetime'')"
proof -
  let ?A = "snd (open_scope ''datetime'' ''typing'' True init_world)"
  let ?B = "snd (open_scope ''typing'' ''datetime'' True init_world)"
  have A: "s_value (heap ?A (main_of (state_or_new (Some (state ?A))))) = PStr ''datetime''"
    by (simp add: run_defs)
  have B: "s_value (heap ?B (main_of (state_or_new (Some (state ?B))))) = PStr ''typing''"
    "\<not> s_empty (heap ?B (fallback_of (state_or_new (Some (state ?B)))))"
    "s_value (heap ?B (fallback_of (state_or_new (Some (state ?B))))) = PStr ''datetime''"
    by (simp_all add: run_defs)
  have h: "import_module demo_host ''datetime'' = Inr ''datetime''"
    "import_module demo_host ''typing'' = Inr ''typing''"
    "getattr demo_host ''typing'' ''datetime'' = Inl (AttributeError ''datetime'')"
    by (simp_all add: demo_host_def demo_modules_def)
  have a: "fst (safelib_getattr demo_host ''datetime'' (Some (state ?A)) ?A)
      = Inr (Module ''datetime'')"
    using self_reference [OF A, of demo_host] h by simp
  have b: "fst (safelib_getattr demo_host ''datetime'' (Some (state ?B)) ?B)
      = Inr (Module ''datetime'')"
    using self_reference [OF B(1), of demo_host] B(2,3) h by simp
  show ?thesis using a b by simp
qed

section \<open>The deferred assignment\<close>

text \<open>
  Claim C8.  The lookup of \<^verbatim>\<open>_main\<close> marks the primary sentinel pending (value the
  \<^verbatim>\<open>_Future\<close> class, \<open>empty\<close> false, \<open>future\<close> true) and returns that sentinel.  The next
  lookup of an ordinary name \<open>N\<close> stores \<open>N\<close> as the primary's value, clears the flag, and
  is the same call as the lookup of \<open>N\<close> in the state where the primary already holds
  \<open>N\<close>; for a non-empty \<open>N\<close> that call first asks the loader for the module \<open>N\<close> and
  returns the module when it loads.
\<close>

theorem deferred_assignment:
  fixes h :: "('m, 'v) host"
  assumes N: "N \<noteq> ''_reset''" "N \<noteq> ''_main''" "N \<noteq> ''_fallback''"
  shows "fst (safelib_getattr h ''_main'' sa w) = Inr (SentinelObj (main_of (state_or_new sa))) \<and>
     heap (snd (safelib_getattr h ''_main'' sa w)) (main_of (state_or_new sa))
       = \<lparr>s_value = PFuture, s_empty = False, s_future = True\<rparr> \<and>
     (let w1 = snd (safelib_getattr h ''_main'' sa w);
          a = main_of (state_or_new sa);
          r = safelib_getattr h N sa w1
      in heap (snd r) a = \<lparr>s_value = PStr N, s_empty = False, s_future = False\<rparr> \<and>
         r = safelib_getattr h N sa
               (w1\<lparr>heap := (heap w1)(a :=
                  \<lparr>s_value = PStr N, s_empty = False, s_future = False\<rparr>)\<rparr>) \<and>
         (N \<noteq> [] \<longrightarrow>
            (\<exists>ext. import_calls (snd r) = import_calls w @ PStr N # ext) \<and>
            (\<forall>m. import_module h N = Inr m \<longrightarrow> fst r = Inr (Module m))))"
proof -
  let ?st = "state_or_new sa"
  let ?a = "main_of ?st" and ?b = "fallback_of ?st"
  let ?w1 = "snd (safelib_getattr h ''_main'' sa w)"
  let ?new = "\<lparr>s_value = PStr N, s_empty = False, s_future = False\<rparr>"
  let ?w1' = "?w1\<lparr>heap := (heap ?w1)(?a := ?new)\<rparr>"
  let ?r = "safelib_getattr h N sa ?w1"
  have w1: "?w1 = w\<lparr>heap := (heap w)(?a := \<lparr>s_value = PFuture, s_empty = False, s_future = True\<rparr>)\<rparr>"
    by (simp add: safelib_getattr_def Let_def)
  have p1: "fst (safelib_getattr h ''_main'' sa w) = Inr (SentinelObj ?a)"
    by (simp add: safelib_getattr_def Let_def)
  have p2: "heap ?w1 ?a = \<lparr>s_value = PFuture, s_empty = False, s_future = True\<rparr>"
    by (simp add: w1)
  have c1: "consume_future ?a N ?w1 = ?w1'"
    by (simp add: consume_future_def p2)
  have c1': "consume_future ?a N ?w1' = ?w1'"
    by (simp add: consume_future_def)
  have ro: "resolve_ordinary h N ?st ?w1 = resolve_ordinary h N ?st ?w1'"
    by (simp add: resolve_ordinary_def c1 c1')
  have eq: "?r = resolve_ordinary h N ?st ?w1"
    using N by (simp add: ordinary_getattr)
  have eq': "safelib_getattr h N sa ?w1' = resolve_ordinary h N ?st ?w1'"
    using N by (rule ordinary_getattr)
  let ?w2 = "consume_future ?b N ?w1'"
  have h2: "heap ?w2 ?a = ?new"
    by (simp add: consume_future_settled)
  have p3: "heap (snd ?r) ?a = ?new"
    by (simp add: eq resolve_ordinary_heap c1 h2)
  have p4: "?r = safelib_getattr h N sa ?w1'"
    by (simp add: eq eq' ro)
  have calls: "import_calls ?w2 = import_calls w"
    by (simp add: consume_future_calls w1)
  have p5: "N \<noteq> [] \<longrightarrow>
            (\<exists>ext. import_calls (snd ?r) = import_calls w @ PStr N # ext) \<and>
            (\<forall>m. import_module h N = Inr m \<longrightarrow> fst ?r = Inr (Module m))"
  proof
    assume ne: "N \<noteq> []"
    have v: "s_value (heap ?w2 ?a) = PStr N" by (simp add: h2)
    have pa: "primary_attempt h N ?st ?w2 =
       (case import_module h N of
          Inl e \<Rightarrow> (Inl e, called (PStr N) ?w2)
        | Inr m \<Rightarrow> (Inr (Module m), called (PStr N) ?w2))"
      using v by (rule primary_attempt_self)
    have r: "?r = (let r = primary_attempt h N ?st ?w2
              in case fst r of Inr x \<Rightarrow> r
                 | Inl e \<Rightarrow> if caught_primary e then on_failure h N ?st (snd r) else r)"
      using ne by (simp add: eq resolve_ordinary_def c1 h2 Let_def)
    have sp: "snd (primary_attempt h N ?st ?w2) = called (PStr N) ?w2"
      unfolding pa by (simp split: sum.splits)
    have cc: "import_calls (called (PStr N) ?w2) = import_calls w @ [PStr N]"
      by (simp add: called_def calls)
    have a: "\<exists>ext. import_calls (snd ?r) = import_calls w @ PStr N # ext"
    proof (cases "fst (primary_attempt h N ?st ?w2)")
      case (Inr x)
      then have "snd ?r = called (PStr N) ?w2" unfolding r by (simp add: Let_def sp)
      then show ?thesis by (simp add: cc)
    next
      case (Inl e)
      show ?thesis
      proof (cases "caught_primary e")
        case False
        then have "snd ?r = called (PStr N) ?w2" unfolding r using Inl by (simp add: Let_def sp)
        then show ?thesis by (simp add: cc)
      next
        case True
        then have s: "snd ?r = snd (on_failure h N ?st (called (PStr N) ?w2))"
          unfolding r using Inl by (simp add: Let_def sp)
        obtain ext where "import_calls (snd (on_failure h N ?st (called (PStr N) ?w2)))
            = import_calls (called (PStr N) ?w2) @ ext"
          using on_failure_calls_ext by blast
        then show ?thesis by (simp add: s cc)
      qed
    qed
    have b: "\<forall>m. import_module h N = Inr m \<longrightarrow> fst ?r = Inr (Module m)"
      unfolding r by (simp add: pa Let_def)
    show "(\<exists>ext. import_calls (snd ?r) = import_calls w @ PStr N # ext) \<and>
            (\<forall>m. import_module h N = Inr m \<longrightarrow> fst ?r = Inr (Module m))"
      using a b by blast
  qed
  show ?thesis
    unfolding Let_def using p1 p2 p3 p4 p5 by blast
qed

theorem deferred_assignment_witness:
  "fst (safelib_getattr demo_host ''_main'' None init_world) = Inr (SentinelObj cls_main) \<and>
   heap (snd (safelib_getattr demo_host ''_main'' None init_world)) cls_main
     = \<lparr>s_value = PFuture, s_empty = False, s_future = True\<rparr> \<and>
   heap (snd (safelib_getattr demo_host ''typing'' None
               (snd (safelib_getattr demo_host ''_main'' None init_world)))) cls_main
     = \<lparr>s_value = PStr ''typing'', s_empty = False, s_future = False\<rparr> \<and>
   fst (safelib_getattr demo_host ''typing'' None
          (snd (safelib_getattr demo_host ''_main'' None init_world)))
     = Inr (Module ''typing'')"
proof -
  have n: "''typing'' \<noteq> ''_reset''" "''typing'' \<noteq> ''_main''" "''typing'' \<noteq> ''_fallback''"
    by simp_all
  have h: "import_module demo_host ''typing'' = Inr ''typing''"
    by (simp add: demo_host_def demo_modules_def)
  have a: "main_of (state_or_new None) = cls_main"
    by (simp add: state_or_new_def new_state_def main_of_def)
  have ne: "''typing'' \<noteq> []"
    by simp
  show ?thesis
    using deferred_assignment [OF n, of demo_host None init_world] h ne
    unfolding Let_def a by blast
qed

section \<open>Scopes\<close>

text \<open>
  What \<^verbatim>\<open>exit\<close> restores.  In a well-formed world \<open>w\<close>, after \<^verbatim>\<open>enter\<close>, any sequence
  of library calls as the scope body, and \<^verbatim>\<open>exit\<close> with the snapshot taken by that
  \<^verbatim>\<open>enter\<close> (whatever exception the body ended with), the primary and fallback sentinels
  of the module global \<^verbatim>\<open>state\<close> hold the values they held in \<open>w\<close>; they are objects that
  \<^verbatim>\<open>exit\<close> allocated (copies); and a lookup through the handle returns what it returned in
  \<open>w\<close>.  Nothing is said here about the class-level sentinels or about module-level
  lookups.
\<close>

theorem enter_exit_roundtrip:
  fixes h :: "('m, 'v) host" and h' :: "('k, 'u) host"
  assumes wf: "wf_world w"
  shows "(let (self1, w1) = enter self w;
              (r, w3) = exit self1 exc (api_run h body w1)
          in r = Inr () \<and>
             heap w3 (main_of (state w3)) = heap w (main_of (state w)) \<and>
             heap w3 (fallback_of (state w3)) = heap w (fallback_of (state w)) \<and>
             next_addr (api_run h body w1) \<le> main_of (state w3) \<and>
             next_addr (api_run h body w1) \<le> fallback_of (state w3) \<and>
             (\<forall>n. n \<noteq> ''_main'' \<and> n \<noteq> ''_fallback'' \<longrightarrow>
                  fst (get_entity h' n w3) = fst (get_entity h' n w)))"
proof -
  let ?self1 = "fst (enter self w)" and ?w1 = "snd (enter self w)"
  let ?wb = "api_run h body ?w1"
  let ?w3 = "snd (exit ?self1 exc ?wb)"
  let ?a = "next_addr w" and ?b = "Suc (next_addr w)"
  from wf have w: "2 \<le> next_addr w" "main_of (state w) < next_addr w"
    "fallback_of (state w) < next_addr w" "main_of (state w) \<noteq> fallback_of (state w)"
    by (simp_all add: wf_world_def)
  obtain old where old: "i_old_state ?self1 = Some old" "main_of old = ?a" "fallback_of old = ?b"
    using enter_snapshot by blast
  have snap: "heap ?w1 ?a = heap w (main_of (state w))"
    "heap ?w1 ?b = heap w (fallback_of (state w))"
    using w by (simp_all add: enter_snapshot_heap)
  have ua: "unreferenced ?a ?w1" and ub: "unreferenced ?b ?w1"
    using w by (simp_all add: unreferenced_def enter_frame)
  from api_run_unreferenced [OF ua, of h body]
  have a: "?a < next_addr ?wb" "heap ?wb ?a = heap ?w1 ?a"
    by (simp_all add: unreferenced_def)
  from api_run_unreferenced [OF ub, of h body]
  have b: "?b < next_addr ?wb" "heap ?wb ?b = heap ?w1 ?b"
    by (simp_all add: unreferenced_def)
  have r: "fst (exit ?self1 exc ?wb) = Inr ()"
    using old(1) by (rule exit_entered)
  have mo: "main_of (state ?w3) = next_addr ?wb"
    and fo: "fallback_of (state ?w3) = Suc (next_addr ?wb)"
    using old(1) by (rule exit_entered)+
  have hm: "heap ?w3 (main_of (state ?w3)) = heap w (main_of (state w))"
    unfolding mo using exit_entered(6) [OF old(1), of exc ?wb] a snap old by simp
  have hf: "heap ?w3 (fallback_of (state ?w3)) = heap w (fallback_of (state w))"
    unfolding fo using exit_entered(7) [OF old(1), of ?wb exc] b snap old by simp
  have d: "main_of (state ?w3) \<noteq> fallback_of (state ?w3)"
    by (simp add: mo fo)
  have lk: "\<forall>n. n \<noteq> ''_main'' \<and> n \<noteq> ''_fallback'' \<longrightarrow>
                  fst (get_entity h' n ?w3) = fst (get_entity h' n w)"
    using fst_get_entity_cong [OF hm hf d w(4)] by blast
  show ?thesis
    using r hm hf lk by (simp add: case_prod_unfold mo fo)
qed

theorem enter_exit_roundtrip_witness:
  "wf_world typing_scope \<and>
   (let (self1, w1) = enter \<lparr>i_main = ''json'', i_fallback = ''datetime'', i_old_state = None\<rparr>
                        typing_scope;
        (r, w3) = exit self1 (Some (OtherError ''boom''))
                    (api_run demo_host [GetEntity ''dumps'', ModuleGetattr ''Any'', ResetState] w1)
    in r = Inr () \<and>
       heap w3 (main_of (state w3))
         = \<lparr>s_value = PStr ''typing'', s_empty = False, s_future = False\<rparr> \<and>
       heap w3 (fallback_of (state w3))
         = \<lparr>s_value = PStr ''typing_extensions'', s_empty = False, s_future = False\<rparr> \<and>
       fst (get_entity demo_host ''Any'' w3) = Inr (Attr ''typing.Any''))"
proof -
  let ?B = "\<lparr>i_main = ''json'', i_fallback = ''datetime'', i_old_state = None\<rparr>"
  let ?body = "[GetEntity ''dumps'', ModuleGetattr ''Any'', ResetState]"
  have wf: "wf_world typing_scope"
    by (simp add: wf_world_def run_defs)
  have v1: "heap typing_scope (main_of (state typing_scope))
         = \<lparr>s_value = PStr ''typing'', s_empty = False, s_future = False\<rparr>"
    by (simp add: run_defs)
  have v2: "heap typing_scope (fallback_of (state typing_scope))
         = \<lparr>s_value = PStr ''typing_extensions'', s_empty = False, s_future = False\<rparr>"
    by (simp add: run_defs)
  have v3: "fst (get_entity demo_host ''Any'' typing_scope) = Inr (Attr ''typing.Any'')"
    by (simp add: run_defs)
  have n: "''Any'' \<noteq> ''_main'' \<and> ''Any'' \<noteq> ''_fallback''"
    by simp
  note t = enter_exit_roundtrip [OF wf, of ?B "Some (OtherError ''boom'')" demo_host ?body
      demo_host, unfolded Let_def case_prod_unfold]
  note c1 = t [THEN conjunct1]
  note c2 = t [THEN conjunct2, THEN conjunct1]
  note c3 = t [THEN conjunct2, THEN conjunct2, THEN conjunct1]
  note c6 = t [THEN conjunct2, THEN conjunct2, THEN conjunct2, THEN conjunct2, THEN conjunct2,
      THEN spec, of "''Any''", THEN mp, OF n]
  show ?thesis
    unfolding Let_def case_prod_unfold
    apply (intro conjI)
        apply (rule wf)
       apply (rule c1)
      apply (rule trans [OF c2 v1])
     apply (rule trans [OF c3 v2])
    apply (rule trans [OF c6 v3])
    done
qed

text \<open>
  Claim C4.  Enter/exit round trip: \<^verbatim>\<open>exit\<close> after \<^verbatim>\<open>enter\<close> restores the live primary and
  fallback sentinels to the values they held before \<^verbatim>\<open>enter\<close>, via copies, however the body
  ended; consequently, after scope B is opened inside scope A and closed, lookups see exactly
  A's primary and fallback configuration again.

  The code restores the sentinels of the module global \<^verbatim>\<open>state\<close> only.  Below, scope A is
  \<^verbatim>\<open>Import('typing', 'typing_extensions')\<close> in a new process and scope B is
  \<^verbatim>\<open>Import('json', 'datetime')\<close>, entered inside A and left again.  Inside A, before B, the
  lookup of \<^verbatim>\<open>Any\<close> returns \<^verbatim>\<open>typing.Any\<close> through the handle and through the module.
  After B is closed the sentinels of \<^verbatim>\<open>state\<close> hold A's names again and the handle returns
  \<^verbatim>\<open>typing.Any\<close>, but the class-level sentinels, which \<^verbatim>\<open>enter\<close> of B wrote in place, still
  hold \<^verbatim>\<open>json\<close> and \<^verbatim>\<open>datetime\<close>: the module-level lookup of \<^verbatim>\<open>Any\<close> consults those and
  returns \<^verbatim>\<open>NotFound\<close>.
\<close>

theorem nested_close_module_lookup_not_restored:
  "fst (safelib_getattr demo_host ''Any'' None typing_scope) = Inr (Attr ''typing.Any'') \<and>
   fst (get_entity demo_host ''Any'' typing_scope) = Inr (Attr ''typing.Any'') \<and>
   (let (b, w1) = open_scope ''json'' ''datetime'' True typing_scope;
        (r, w2) = exit b None w1
    in r = Inr () \<and>
       s_value (heap w2 (main_of (state w2))) = PStr ''typing'' \<and>
       s_value (heap w2 (fallback_of (state w2))) = PStr ''typing_extensions'' \<and>
       fst (get_entity demo_host ''Any'' w2) = Inr (Attr ''typing.Any'') \<and>
       s_value (heap w2 cls_main) = PStr ''json'' \<and>
       s_value (heap w2 cls_fallback) = PStr ''datetime'' \<and>
       fst (safelib_getattr demo_host ''Any'' None w2) = Inr NotFoundCls)"
  by (simp add: run_defs)

text \<open>
  Claim C10.  The error-policy flag survives scope exit: \<^verbatim>\<open>exit\<close> leaves the flag of the
  live state as it is, constructing an \<^verbatim>\<open>Import\<close> with \<^verbatim>\<open>raises=True\<close> changes nothing,
  and once an \<^verbatim>\<open>Import\<close> has been constructed with \<^verbatim>\<open>raises=False\<close> the flag is false and
  stays false under every later sequence of library calls.
\<close>

theorem policy_flag_survives_exit:
  "o_raise_exc (state (snd (exit i exc w))) = o_raise_exc (state w) \<and>
   raise_exc_of (state (snd (exit i exc w))) = raise_exc_of (state w) \<and>
   snd (Import_init p f True w) = w \<and>
   o_raise_exc (state (snd (Import_init p f False w))) = Some False \<and>
   o_raise_exc (state (api_run h cs (snd (Import_init p f False w)))) = Some False \<and>
   raise_exc_of (state (api_run h cs (snd (Import_init p f False w)))) = False"
  by (simp add: exit_flag Import_init_raising Import_init_silent api_run_flag raise_exc_of_def)

end
